theory Spec2Isabelle
  imports Complex_Main
begin

section \<open>Bulk ingestion of stock intakes (app/routers/abastecimentos.py)\<close>

text \<open>
  The development embeds \<^verbatim>\<open>bulk_create_abastecimentos\<close> (lines 126-254 of
  \<^verbatim>\<open>src/app/routers/abastecimentos.py\<close>): the per-record pipeline that resolves the
  product, looks for a duplicate, writes the ledger row and the stock, and the decision
  between commit and rollback after the last record.

  Conventions of the embedding.
  \<^item> Python floats are idealised as \<open>real\<close>: rounding, infinities and NaN are not modelled.
    The fields \<^verbatim>\<open>quantidade\<close> and \<^verbatim>\<open>custo_unitario\<close> are validated floats, so the
    \<^verbatim>\<open>float(...)\<close> conversions of lines 176-178, 202-211 and 217 are identities and
    cannot raise.
    Every sum and product in a statement is one addition or multiplication of the program;
    no statement rests on a law of real arithmetic that floats lack, and the concrete
    values evaluated are exact in both.
  \<^item> A UUID is a number, a \<^verbatim>\<open>datetime\<close> is a number; a \<^verbatim>\<open>datetime\<close> is always
    truthy, so \<^verbatim>\<open>if item.created_at\<close> tests for \<^verbatim>\<open>None\<close>.
  \<^item> The constructor \<^verbatim>\<open>uuid.UUID\<close> of the standard library is a parameter \<open>UUID\<close> of the
    model: \<open>UUID s = None\<close> stands for the \<^verbatim>\<open>ValueError\<close> raised on a malformed string.
  \<^item> The ORM classes \<^verbatim>\<open>Produto\<close> and \<^verbatim>\<open>Abastecimento\<close> (\<^verbatim>\<open>app.db.models\<close>) are
    not part of the source; the records below carry the columns this function reads and
    writes. The stock column may be \<^verbatim>\<open>NULL\<close>, as line 220 expects.
  \<^item> The storage session is a value of type \<open>database\<close>: the tables as the open transaction
    sees them. A commit makes this view durable, a rollback discards it.
  \<^item> Each record is processed in an environment \<open>env\<close> that fixes the clock and says which of
    the statements sent through \<^verbatim>\<open>db.execute\<close> raise, with the text of the exception.
    A statement that raises changes nothing and leaves the transaction usable.
  \<^item> The functions \<open>write_item\<close>, \<open>process_item\<close>, \<open>bulk_loop\<close> and
    \<open>bulk_create_abastecimentos\<close> are the batch whose flushes (line 230) all succeed; the call
    then always answers with its response. The failing flush is added on top of them by
    \<open>process_item_session\<close>, \<open>bulk_loop_session\<close> and
    \<open>bulk_create_abastecimentos_session\<close>: a flush that raises makes the storage session roll
    the open transaction back and refuse every further statement, and the commit, until
    \<^verbatim>\<open>rollback\<close> is called, so the records that follow fail and a commit ends in the handler
    of lines 252-254. The two agree on every batch without a failing flush
    (\<open>bulk_create_abastecimentos_session_no_fault\<close>). A commit or rollback that fails for another
    reason is not modelled.
\<close>

subsection \<open>Data\<close>

type_synonym uuid = nat
type_synonym datetime = nat

text \<open>\<^verbatim>\<open>class AbastecimentoIn(BaseModel)\<close>, lines 112-121.\<close>

record AbastecimentoIn =
  local_id :: "string option"
  produto_id :: "string option"
  produto_codigo :: "string option"
  usuario_id :: "string option"
  quantidade :: real
  custo_unitario :: real
  total_custo :: "real option"
  observacao :: "string option"
  created_at :: "datetime option"

text \<open>The columns of \<^verbatim>\<open>Produto\<close> and \<^verbatim>\<open>Abastecimento\<close> that the function uses.\<close>

record Produto =
  p_id :: uuid
  p_codigo :: string
  p_estoque :: "real option"
  p_updated_at :: datetime

record Abastecimento =
  a_id :: nat
  a_produto_id :: uuid
  a_usuario_id :: "uuid option"
  a_quantidade :: real
  a_custo_unitario :: real
  a_total :: real
  a_total_custo :: real
  a_observacao :: "string option"
  a_created_at :: datetime

record database =
  produtos :: "Produto list"
  abastecimentos :: "Abastecimento list"

text \<open>The environment of one record: the clock and the statements that raise.\<close>

record env =
  now :: datetime
  fault_select_id :: "string option"
  fault_select_codigo :: "string option"
  fault_dedup :: "string option"
  fault_update :: "string option"

text \<open>
  The exceptions that reach the handler of line 243. None is a \<^verbatim>\<open>ValueError\<close>, so
  the handler of line 142 lets them pass. \<open>PendingRollbackError\<close> is what the session raises
  for a statement or a commit after a failed flush; its text is abbreviated.
\<close>

datatype exn = MultipleResultsFound | DBAPIError string | PendingRollbackError

fun str_exn :: "exn \<Rightarrow> string" where
  "str_exn MultipleResultsFound = ''Multiple rows were found when one or none was required''"
| "str_exn (DBAPIError m) = m"
| "str_exn PendingRollbackError =
     ''The transaction of the session has been rolled back due to a previous exception during flush''"

text \<open>A conflict is a dictionary from keys to strings or \<^verbatim>\<open>None\<close>, in insertion order.\<close>

type_synonym conflict = "(string \<times> string option) list"

text \<open>The three locals \<^verbatim>\<open>inserted\<close>, \<^verbatim>\<open>accepted\<close>, \<^verbatim>\<open>conflicts\<close>, returned at line 251.\<close>

record response =
  inserted :: nat
  accepted :: "string list"
  conflicts :: "conflict list"

subsection \<open>Storage calls\<close>

text \<open>\<^verbatim>\<open>await db.execute(select ...)\<close>: the selected rows, or the exception of the fault.\<close>

fun execute :: "string option \<Rightarrow> 'a list \<Rightarrow> exn + 'a list" where
  "execute (Some m) rows = Inl (DBAPIError m)"
| "execute None rows = Inr rows"

text \<open>\<^verbatim>\<open>Result.scalar_one_or_none()\<close> raises when more than one row was selected.\<close>

fun scalar_one_or_none :: "'a list \<Rightarrow> exn + 'a option" where
  "scalar_one_or_none [] = Inr None"
| "scalar_one_or_none [x] = Inr (Some x)"
| "scalar_one_or_none (x # y # zs) = Inl MultipleResultsFound"

definition select_one :: "string option \<Rightarrow> 'a list \<Rightarrow> exn + 'a option" where
  "select_one fault rows =
     (case execute fault rows of Inl e \<Rightarrow> Inl e | Inr res \<Rightarrow> scalar_one_or_none res)"

subsection \<open>Resolving the product, lines 136-146\<close>

definition select_by_id :: "(string \<Rightarrow> uuid option) \<Rightarrow> env \<Rightarrow> database \<Rightarrow> AbastecimentoIn
    \<Rightarrow> exn + Produto option" where
  "select_by_id UUID e db item =
     (case produto_id item of
        None \<Rightarrow> Inr None
      | Some s \<Rightarrow>
          if s = [] then Inr None
          else (case UUID s of
                  None \<Rightarrow> Inr None
                | Some pid \<Rightarrow>
                    select_one (fault_select_id e) (filter (\<lambda>p. p_id p = pid) (produtos db))))"

definition select_by_codigo :: "env \<Rightarrow> database \<Rightarrow> string \<Rightarrow> exn + Produto option" where
  "select_by_codigo e db c =
     select_one (fault_select_codigo e) (filter (\<lambda>p. p_codigo p = c) (produtos db))"

definition resolve_produto :: "(string \<Rightarrow> uuid option) \<Rightarrow> env \<Rightarrow> database \<Rightarrow> AbastecimentoIn
    \<Rightarrow> exn + Produto option" where
  "resolve_produto UUID e db item =
     (case select_by_id UUID e db item of
        Inl ex \<Rightarrow> Inl ex
      | Inr (Some p) \<Rightarrow> Inr (Some p)
      | Inr None \<Rightarrow>
          (case produto_codigo item of
             None \<Rightarrow> Inr None
           | Some c \<Rightarrow> if c = [] then Inr None else select_by_codigo e db c))"

subsection \<open>The actor, lines 156-161\<close>

definition usuario_uuid :: "(string \<Rightarrow> uuid option) \<Rightarrow> AbastecimentoIn \<Rightarrow> uuid option" where
  "usuario_uuid UUID item =
     (case usuario_id item of
        None \<Rightarrow> None
      | Some s \<Rightarrow> if s = [] then None else UUID s)"

subsection \<open>Duplicate lookup, lines 174-200\<close>

definition tc_f :: "AbastecimentoIn \<Rightarrow> real" where
  "tc_f item =
     (case total_custo item of Some tc \<Rightarrow> tc | None \<Rightarrow> quantidade item * custo_unitario item)"

text \<open>The conjunction of the \<^verbatim>\<open>where\<close> clauses of lines 181-190.\<close>

definition dup_q :: "Produto \<Rightarrow> uuid option \<Rightarrow> AbastecimentoIn \<Rightarrow> datetime \<Rightarrow> Abastecimento \<Rightarrow> bool"
  where
  "dup_q produto_obj uu item t a =
     (a_produto_id a = p_id produto_obj \<and> a_quantidade a = quantidade item
      \<and> a_custo_unitario a = custo_unitario item \<and> a_total_custo a = tc_f item
      \<and> a_created_at a = t \<and> a_usuario_id a = uu)"

text \<open>Lines 192-193: at most one identifier (\<^verbatim>\<open>limit(1)\<close>), or the exception of the fault.\<close>

definition dup_id :: "env \<Rightarrow> database \<Rightarrow> Produto \<Rightarrow> uuid option \<Rightarrow> AbastecimentoIn \<Rightarrow> datetime
    \<Rightarrow> exn + nat option" where
  "dup_id e db produto_obj uu item t =
     select_one (fault_dedup e)
       (take 1 (map a_id (filter (dup_q produto_obj uu item t) (abastecimentos db))))"

text \<open>
  Whether line 197 is reached. Any exception of the lookup is swallowed at line 198 and the
  record goes on to the insertion.
\<close>

definition is_duplicate :: "(string \<Rightarrow> uuid option) \<Rightarrow> env \<Rightarrow> database \<Rightarrow> Produto
    \<Rightarrow> AbastecimentoIn \<Rightarrow> bool" where
  "is_duplicate UUID e db produto_obj item =
     (case created_at item of
        None \<Rightarrow> False
      | Some t \<Rightarrow>
          (case dup_id e db produto_obj (usuario_uuid UUID item) item t of
             Inl ex \<Rightarrow> False
           | Inr None \<Rightarrow> False
           | Inr (Some i) \<Rightarrow> True))"

subsection \<open>Writing, lines 202-242\<close>

text \<open>The primary key of a new row is generated; it is a value that no row of the table has.\<close>

definition new_id :: "Abastecimento list \<Rightarrow> nat" where
  "new_id rows = Suc (foldr max (map a_id rows) 0)"

text \<open>Lines 202-213. The creation time is the default of the column, the clock.\<close>

definition abast :: "env \<Rightarrow> database \<Rightarrow> Produto \<Rightarrow> uuid option \<Rightarrow> AbastecimentoIn \<Rightarrow> Abastecimento"
  where
  "abast e db produto_obj uu item =
     \<lparr>a_id = new_id (abastecimentos db),
      a_produto_id = p_id produto_obj,
      a_usuario_id = uu,
      a_quantidade = quantidade item,
      a_custo_unitario = custo_unitario item,
      a_total = quantidade item * custo_unitario item,
      a_total_custo = tc_f item,
      a_observacao = observacao item,
      a_created_at = now e\<rparr>"

text \<open>Line 220: \<^verbatim>\<open>float(getattr(produto_obj, "estoque", 0) or 0) + qtd\<close>.\<close>

definition estoque_or_0 :: "Produto \<Rightarrow> real" where
  "estoque_or_0 p = (case p_estoque p of None \<Rightarrow> 0 | Some v \<Rightarrow> v)"

text \<open>
  Lines 215-230: the two attributes set on the product object and the new row reach the
  tables with the flush. The product row is updated where its primary key is the one of
  the object; the new stock is computed from the object.
\<close>

definition update_produto :: "env \<Rightarrow> Produto \<Rightarrow> real \<Rightarrow> Produto \<Rightarrow> Produto" where
  "update_produto e produto_obj qtd p =
     (if p_id p = p_id produto_obj
      then p\<lparr>p_estoque := Some (estoque_or_0 produto_obj + qtd), p_updated_at := now e\<rparr>
      else p)"

definition flush :: "env \<Rightarrow> database \<Rightarrow> Produto \<Rightarrow> real \<Rightarrow> Abastecimento \<Rightarrow> database" where
  "flush e db produto_obj qtd row =
     \<lparr>produtos = map (update_produto e produto_obj qtd) (produtos db),
      abastecimentos = abastecimentos db @ [row]\<rparr>"

text \<open>Lines 234-238: the creation time of the new row is set to the claimed one.\<close>

definition update_created_at :: "database \<Rightarrow> nat \<Rightarrow> datetime \<Rightarrow> database" where
  "update_created_at db i t =
     db\<lparr>abastecimentos := map (\<lambda>a. if a_id a = i then a\<lparr>a_created_at := t\<rparr> else a) (abastecimentos db)\<rparr>"

subsection \<open>One record, lines 134-244\<close>

definition token :: "AbastecimentoIn \<Rightarrow> string list" where
  "token item = (case local_id item of None \<Rightarrow> [] | Some l \<Rightarrow> [l])"

definition produto_nao_encontrado :: "AbastecimentoIn \<Rightarrow> conflict" where
  "produto_nao_encontrado item =
     [(''reason'', Some ''produto_nao_encontrado''),
      (''produto_id'', produto_id item),
      (''produto_codigo'', produto_codigo item)]"

definition erro_interno :: "exn \<Rightarrow> AbastecimentoIn \<Rightarrow> conflict" where
  "erro_interno ie item =
     [(''reason'', Some ''erro_interno''),
      (''message'', Some (str_exn ie)),
      (''local_id'', local_id item)]"

definition write_item :: "(string \<Rightarrow> uuid option) \<Rightarrow> env \<Rightarrow> database \<Rightarrow> response \<Rightarrow> Produto
    \<Rightarrow> AbastecimentoIn \<Rightarrow> database \<times> response" where
  "write_item UUID e db r produto_obj item =
     (let row = abast e db produto_obj (usuario_uuid UUID item) item;
          db1 = flush e db produto_obj (quantidade item) row
      in case created_at item of
           None \<Rightarrow>
             (db1, r\<lparr>inserted := inserted r + 1, accepted := accepted r @ token item\<rparr>)
         | Some t \<Rightarrow>
             (case fault_update e of
                Some m \<Rightarrow>
                  (db1, r\<lparr>conflicts := conflicts r @ [erro_interno (DBAPIError m) item]\<rparr>)
              | None \<Rightarrow>
                  (update_created_at db1 (a_id row) t,
                   r\<lparr>inserted := inserted r + 1, accepted := accepted r @ token item\<rparr>)))"

definition process_item :: "(string \<Rightarrow> uuid option) \<Rightarrow> database \<times> response
    \<Rightarrow> AbastecimentoIn \<times> env \<Rightarrow> database \<times> response" where
  "process_item UUID st ie =
     (case (st, ie) of ((db, r), (item, e)) \<Rightarrow>
        (case resolve_produto UUID e db item of
           Inl ex \<Rightarrow> (db, r\<lparr>conflicts := conflicts r @ [erro_interno ex item]\<rparr>)
         | Inr None \<Rightarrow> (db, r\<lparr>conflicts := conflicts r @ [produto_nao_encontrado item]\<rparr>)
         | Inr (Some produto_obj) \<Rightarrow>
             if is_duplicate UUID e db produto_obj item
             then (db, r\<lparr>accepted := accepted r @ token item\<rparr>)
             else write_item UUID e db r produto_obj item))"

subsection \<open>The batch, lines 128-251\<close>

fun bulk_loop :: "(string \<Rightarrow> uuid option) \<Rightarrow> database \<times> response
    \<Rightarrow> (AbastecimentoIn \<times> env) list \<Rightarrow> database \<times> response" where
  "bulk_loop UUID st [] = st"
| "bulk_loop UUID st (ie # rest) = bulk_loop UUID (process_item UUID st ie) rest"

definition response0 :: response where
  "response0 = \<lparr>inserted = 0, accepted = [], conflicts = []\<rparr>"

text \<open>
  The endpoint takes the durable tables, opens the session on them, runs the loop and
  returns the durable tables after the commit or the rollback, with the response.
\<close>

definition bulk_create_abastecimentos :: "(string \<Rightarrow> uuid option) \<Rightarrow> (AbastecimentoIn \<times> env) list
    \<Rightarrow> database \<Rightarrow> database \<times> response" where
  "bulk_create_abastecimentos UUID payload db =
     (case bulk_loop UUID (db, response0) payload of
        (session, r) \<Rightarrow> (if inserted r \<noteq> 0 then session else db, r))"

subsection \<open>The failing flush, lines 229-230 and 243-254\<close>

text \<open>
  The session is active on its tables, or a flush has failed and it waits for the rollback.
\<close>

datatype session = Active database | RollbackPending

text \<open>The answer of line 254.\<close>

datatype http_error = HTTPException nat string

text \<open>Whether lines 137-146 send a select for the record.\<close>

definition sends_select :: "(string \<Rightarrow> uuid option) \<Rightarrow> AbastecimentoIn \<Rightarrow> bool" where
  "sends_select UUID item =
     ((case produto_id item of None \<Rightarrow> False | Some s \<Rightarrow> s \<noteq> [] \<and> UUID s \<noteq> None)
      \<or> (case produto_codigo item of None \<Rightarrow> False | Some c \<Rightarrow> c \<noteq> []))"

text \<open>
  One record, lines 134-244, with the fault of its flush. On a session that waits for the
  rollback the first select of the record raises and the record becomes a conflict; a
  record that sends no select finds no product. On an active session the record goes as
  in \<open>process_item\<close> up to the flush; a flush that raises is caught at line 243 and leaves
  the session waiting for the rollback; after a flush that succeeds the record ends as in
  \<open>write_item\<close>.
\<close>

definition process_item_session :: "(string \<Rightarrow> uuid option) \<Rightarrow> session \<times> response
    \<Rightarrow> AbastecimentoIn \<times> env \<times> string option \<Rightarrow> session \<times> response" where
  "process_item_session UUID st x =
     (case (st, x) of ((s, r), (item, e, fault_flush)) \<Rightarrow>
        (case s of
           RollbackPending \<Rightarrow>
             if sends_select UUID item
             then (RollbackPending,
                   r\<lparr>conflicts := conflicts r @ [erro_interno PendingRollbackError item]\<rparr>)
             else (RollbackPending,
                   r\<lparr>conflicts := conflicts r @ [produto_nao_encontrado item]\<rparr>)
         | Active db \<Rightarrow>
             (case resolve_produto UUID e db item of
                Inl ex \<Rightarrow> (Active db, r\<lparr>conflicts := conflicts r @ [erro_interno ex item]\<rparr>)
              | Inr None \<Rightarrow>
                  (Active db, r\<lparr>conflicts := conflicts r @ [produto_nao_encontrado item]\<rparr>)
              | Inr (Some produto_obj) \<Rightarrow>
                  if is_duplicate UUID e db produto_obj item
                  then (Active db, r\<lparr>accepted := accepted r @ token item\<rparr>)
                  else (case fault_flush of
                          Some m \<Rightarrow>
                            (RollbackPending,
                             r\<lparr>conflicts := conflicts r @ [erro_interno (DBAPIError m) item]\<rparr>)
                        | None \<Rightarrow>
                            (case write_item UUID e db r produto_obj item of
                               (db', r') \<Rightarrow> (Active db', r'))))))"

fun bulk_loop_session :: "(string \<Rightarrow> uuid option) \<Rightarrow> session \<times> response
    \<Rightarrow> (AbastecimentoIn \<times> env \<times> string option) list \<Rightarrow> session \<times> response" where
  "bulk_loop_session UUID st [] = st"
| "bulk_loop_session UUID st (x # rest) =
     bulk_loop_session UUID (process_item_session UUID st x) rest"

text \<open>
  Lines 246-254. With insertions counted the commit is called: on an active session it
  makes the tables durable; on a session that waits for the rollback it raises, the
  handler of line 252 rolls back and the call answers with status 500. Without insertions
  the rollback is called and the response returned.
\<close>

definition bulk_create_abastecimentos_session :: "(string \<Rightarrow> uuid option)
    \<Rightarrow> (AbastecimentoIn \<times> env \<times> string option) list \<Rightarrow> database
    \<Rightarrow> database \<times> (http_error + response)" where
  "bulk_create_abastecimentos_session UUID payload db =
     (case bulk_loop_session UUID (Active db, response0) payload of
        (s, r) \<Rightarrow>
          if inserted r \<noteq> 0
          then (case s of
                  Active tables \<Rightarrow> (tables, Inr r)
                | RollbackPending \<Rightarrow>
                    (db, Inl (HTTPException 500
                       (''Erro ao importar abastecimentos: '' @ str_exn PendingRollbackError))))
          else (db, Inr r))"

text \<open>A batch without a failing flush.\<close>

definition no_flush_fault :: "(AbastecimentoIn \<times> env) list
    \<Rightarrow> (AbastecimentoIn \<times> env \<times> string option) list" where
  "no_flush_fault payload = map (\<lambda>ie. (fst ie, snd ie, None)) payload"

subsection \<open>Observations used in the statements\<close>

text \<open>The stock on hand of the product with a given primary key.\<close>

definition estoque_of :: "database \<Rightarrow> uuid \<Rightarrow> real" where
  "estoque_of db pid =
     (case find (\<lambda>p. p_id p = pid) (produtos db) of None \<Rightarrow> 0 | Some p \<Rightarrow> estoque_or_0 p)"

text \<open>What a row holds of the record it was written for.\<close>

definition stored_as :: "AbastecimentoIn \<Rightarrow> Abastecimento \<Rightarrow> bool" where
  "stored_as item a =
     (a_quantidade a = quantidade item \<and> a_custo_unitario a = custo_unitario item
      \<and> a_total a = quantidade item * custo_unitario item
      \<and> a_total_custo a = (case total_custo item of Some tc \<Rightarrow> tc
                           | None \<Rightarrow> quantidade item * custo_unitario item))"

subsection \<open>A concrete catalogue and concrete records\<close>

text \<open>
  One product with code SKU1 and five units on hand, an empty ledger, and the record of the
  specification's example: ten units at 2.5, no total, no timestamp.
\<close>

definition UUID_ex :: "string \<Rightarrow> uuid option" where
  "UUID_ex s = (if s = ''p1'' then Some 1 else if s = ''u7'' then Some 7 else None)"

definition env_ok :: "datetime \<Rightarrow> env" where
  "env_ok t = \<lparr>now = t, fault_select_id = None, fault_select_codigo = None,
               fault_dedup = None, fault_update = None\<rparr>"

definition produto_ex :: Produto where
  "produto_ex = \<lparr>p_id = 1, p_codigo = ''SKU1'', p_estoque = Some 5, p_updated_at = 0\<rparr>"

definition db_ex :: database where
  "db_ex = \<lparr>produtos = [produto_ex], abastecimentos = []\<rparr>"

definition item_ex :: AbastecimentoIn where
  "item_ex = \<lparr>local_id = Some ''L1'', produto_id = None, produto_codigo = Some ''SKU1'',
              usuario_id = None, quantidade = 10, custo_unitario = 5 / 2, total_custo = None,
              observacao = None, created_at = None\<rparr>"

definition item_ts :: AbastecimentoIn where
  "item_ts = \<lparr>local_id = Some ''L2'', produto_id = Some ''p1'', produto_codigo = None,
              usuario_id = Some ''u7'', quantidade = 3, custo_unitario = 2, total_custo = Some 7,
              observacao = None, created_at = Some 100\<rparr>"

definition item_bad_actor :: AbastecimentoIn where
  "item_bad_actor = item_ts\<lparr>usuario_id := Some ''not-a-uuid''\<rparr>"

definition row_ts :: Abastecimento where
  "row_ts = \<lparr>a_id = 1, a_produto_id = 1, a_usuario_id = Some 7, a_quantidade = 3,
             a_custo_unitario = 2, a_total = 6, a_total_custo = 7, a_observacao = None,
             a_created_at = 100\<rparr>"

definition db_dup :: database where
  "db_dup = \<lparr>produtos = [produto_ex], abastecimentos = [row_ts]\<rparr>"

definition env_dedup_fault :: "datetime \<Rightarrow> env" where
  "env_dedup_fault t = (env_ok t)\<lparr>fault_dedup := Some ''connection lost''\<rparr>"

definition env_update_fault :: "datetime \<Rightarrow> env" where
  "env_update_fault t = (env_ok t)\<lparr>fault_update := Some ''invalid input for query argument''\<rparr>"

definition item_bad_id :: AbastecimentoIn where
  "item_bad_id = item_ex\<lparr>produto_id := Some ''xyz''\<rparr>"

definition item_unknown :: AbastecimentoIn where
  "item_unknown = item_ex\<lparr>local_id := Some ''L9'', produto_codigo := Some ''NOPE''\<rparr>"

definition env_select_fault :: "datetime \<Rightarrow> env" where
  "env_select_fault t = (env_ok t)\<lparr>fault_select_codigo := Some ''timeout''\<rparr>"

section \<open>Properties\<close>

lemmas model_defs = process_item_def resolve_produto_def select_by_id_def select_by_codigo_def
  select_one_def is_duplicate_def dup_id_def dup_q_def tc_f_def usuario_uuid_def write_item_def
  abast_def flush_def update_produto_def update_created_at_def new_id_def estoque_or_0_def token_def
  produto_nao_encontrado_def erro_interno_def response0_def bulk_create_abastecimentos_def
  estoque_of_def process_item_session_def sends_select_def bulk_create_abastecimentos_session_def

lemmas ex_defs = UUID_ex_def env_ok_def produto_ex_def db_ex_def item_ex_def item_ts_def row_ts_def
  item_bad_actor_def db_dup_def env_dedup_fault_def env_update_fault_def item_bad_id_def
  item_unknown_def env_select_fault_def

subsection \<open>Rows written by one record\<close>

lemma new_id_fresh: "a \<in> set rows \<Longrightarrow> a_id a < new_id rows"
  by (induction rows) (auto simp: new_id_def)

lemma flush_rows: "abastecimentos (flush e db p q row) = abastecimentos db @ [row]"
  by (simp add: flush_def)

lemma update_created_at_flush:
  "abastecimentos (update_created_at (flush e db p q (abast e db p uu item))
      (a_id (abast e db p uu item)) t)
   = abastecimentos db @ [(abast e db p uu item)\<lparr>a_created_at := t\<rparr>]"
proof -
  have "\<forall>a\<in>set (abastecimentos db). a_id a \<noteq> new_id (abastecimentos db)"
    using new_id_fresh by fastforce
  then have "map (\<lambda>a. if a_id a = new_id (abastecimentos db) then a\<lparr>a_created_at := t\<rparr> else a)
      (abastecimentos db) = abastecimentos db"
    by (simp add: map_idI)
  then show ?thesis
    by (simp add: update_created_at_def flush_def abast_def)
qed

lemma abast_stored_as: "stored_as item (abast e db p uu item)"
  by (simp add: stored_as_def abast_def tc_f_def)

lemma abast_stored_as_upd: "stored_as item ((abast e db p uu item)\<lparr>a_created_at := t\<rparr>)"
  by (simp add: stored_as_def abast_def tc_f_def)

lemma write_item_rows:
  assumes "write_item UUID e db r p item = (db', r')"
  shows "\<exists>a. abastecimentos db' = abastecimentos db @ [a] \<and> stored_as item a"
proof (cases "created_at item")
  case None
  with assms have "db' = flush e db p (quantidade item) (abast e db p (usuario_uuid UUID item) item)"
    by (simp add: write_item_def Let_def)
  then show ?thesis using flush_rows abast_stored_as by blast
next
  case (Some t)
  show ?thesis
  proof (cases "fault_update e")
    case None
    with Some assms have "db' = update_created_at
        (flush e db p (quantidade item) (abast e db p (usuario_uuid UUID item) item))
        (a_id (abast e db p (usuario_uuid UUID item) item)) t"
      by (simp add: write_item_def Let_def)
    then show ?thesis using update_created_at_flush abast_stored_as_upd by blast
  next
    case (Some m)
    with \<open>created_at item = Some t\<close> assms
    have "db' = flush e db p (quantidade item) (abast e db p (usuario_uuid UUID item) item)"
      by (simp add: write_item_def Let_def)
    then show ?thesis using flush_rows abast_stored_as by blast
  qed
qed

lemma process_item_not_inserted:
  assumes "process_item UUID (db, r) (item, e) = (db', r')"
      and "inserted r' \<noteq> inserted r"
  shows "\<exists>p. write_item UUID e db r p item = (db', r')"
  using assms unfolding process_item_def
  by (auto split: sum.splits option.splits if_splits)

subsection \<open>The stored totals\<close>

text \<open>
  C9. The row written for a freshly inserted record (one that raises the count of
  insertions) holds the record's quantity and unit cost, the product of the two as its
  computed total, and as its total cost the one the record supplies, or else the product
  of quantity and unit cost.
\<close>

theorem total_default:
  assumes "process_item UUID (db, r) (item, e) = (db', r')"
      and "inserted r' \<noteq> inserted r"
  shows "\<exists>a. abastecimentos db' = abastecimentos db @ [a]
           \<and> a_quantidade a = quantidade item \<and> a_custo_unitario a = custo_unitario item
           \<and> a_total a = quantidade item * custo_unitario item
           \<and> a_total_custo a = (case total_custo item of Some tc \<Rightarrow> tc
                                | None \<Rightarrow> quantidade item * custo_unitario item)"
proof -
  from process_item_not_inserted[OF assms] obtain p
    where "write_item UUID e db r p item = (db', r')" by blast
  from write_item_rows[OF this] show ?thesis by (simp add: stored_as_def)
qed

theorem total_default_witness:
  "inserted (snd (process_item UUID_ex (db_ex, response0) (item_ex, env_ok 50))) \<noteq> inserted response0
   \<and> (\<exists>a. abastecimentos (fst (process_item UUID_ex (db_ex, response0) (item_ex, env_ok 50)))
            = abastecimentos db_ex @ [a]
          \<and> a_quantidade a = 10 \<and> a_custo_unitario a = 5 / 2 \<and> a_total a = 25 \<and> a_total_custo a = 25)"
proof -
  have h: "inserted (snd (process_item UUID_ex (db_ex, response0) (item_ex, env_ok 50)))
      \<noteq> inserted response0"
    by (simp add: model_defs ex_defs Let_def)
  have i: "quantidade item_ex = 10" "custo_unitario item_ex = 5 / 2" "total_custo item_ex = None"
    by (simp_all add: item_ex_def)
  show ?thesis
    using total_default [OF prod.collapse [symmetric] h] h i by simp
qed

subsection \<open>Resolution is stable under the writes of a record\<close>

lemma update_produto_id [simp]: "p_id (update_produto e p0 q p) = p_id p"
  by (simp add: update_produto_def)

lemma update_produto_codigo [simp]: "p_codigo (update_produto e p0 q p) = p_codigo p"
  by (simp add: update_produto_def)

lemma filter_map_update_id:
  "filter (\<lambda>p. p_id p = pid) (map (update_produto e p0 q) ps)
   = map (update_produto e p0 q) (filter (\<lambda>p. p_id p = pid) ps)"
  by (induction ps) auto

lemma filter_map_update_codigo:
  "filter (\<lambda>p. p_codigo p = c) (map (update_produto e p0 q) ps)
   = map (update_produto e p0 q) (filter (\<lambda>p. p_codigo p = c) ps)"
  by (induction ps) auto

lemma select_one_map:
  "select_one fault (map f rows) = map_sum id (map_option f) (select_one fault rows)"
proof (cases fault)
  case None
  then show ?thesis
    by (cases rows rule: scalar_one_or_none.cases) (simp_all add: select_one_def)
next
  case (Some m)
  then show ?thesis by (simp add: select_one_def)
qed

lemma resolve_produto_same_produtos:
  "produtos db' = produtos db \<Longrightarrow> resolve_produto UUID e db' item = resolve_produto UUID e db item"
proof -
  assume a: "produtos db' = produtos db"
  have b: "select_by_id UUID e db' item = select_by_id UUID e db item"
    using a by (simp add: select_by_id_def split: option.splits)
  have c: "select_by_codigo e db' = select_by_codigo e db"
    using a by (rule_tac ext) (simp add: select_by_codigo_def)
  show ?thesis unfolding resolve_produto_def b c ..
qed

lemma resolve_produto_updated:
  assumes "produtos db' = map (update_produto e0 p0 q) (produtos db)"
  shows "resolve_produto UUID e db' item
         = map_sum id (map_option (update_produto e0 p0 q)) (resolve_produto UUID e db item)"
proof -
  have a: "select_by_id UUID e db' item
      = map_sum id (map_option (update_produto e0 p0 q)) (select_by_id UUID e db item)"
    using assms
    by (simp add: select_by_id_def filter_map_update_id select_one_map split: option.splits)
  have b: "select_by_codigo e db' c
      = map_sum id (map_option (update_produto e0 p0 q)) (select_by_codigo e db c)" for c
    using assms by (simp add: select_by_codigo_def filter_map_update_codigo select_one_map)
  show ?thesis
    unfolding resolve_produto_def a b
    by (cases "select_by_id UUID e db item") (auto split: option.splits)
qed

lemma produtos_update_created_at [simp]: "produtos (update_created_at db i t) = produtos db"
  by (simp add: update_created_at_def)

lemma produtos_flush [simp]:
  "produtos (flush e db p q row) = map (update_produto e p q) (produtos db)"
  by (simp add: flush_def)

subsection \<open>One record, case by case\<close>

lemma process_item_resolved:
  "resolve_produto UUID e db item = Inr (Some p) \<Longrightarrow>
   process_item UUID (db, r) (item, e) =
     (if is_duplicate UUID e db p item then (db, r\<lparr>accepted := accepted r @ token item\<rparr>)
      else write_item UUID e db r p item)"
  by (simp add: process_item_def)

lemma process_item_not_found:
  "resolve_produto UUID e db item = Inr None \<Longrightarrow>
   process_item UUID (db, r) (item, e) =
     (db, r\<lparr>conflicts := conflicts r @ [produto_nao_encontrado item]\<rparr>)"
  by (simp add: process_item_def)

lemma process_item_raised:
  "resolve_produto UUID e db item = Inl ex \<Longrightarrow>
   process_item UUID (db, r) (item, e) =
     (db, r\<lparr>conflicts := conflicts r @ [erro_interno ex item]\<rparr>)"
  by (simp add: process_item_def)

lemma is_duplicate_no_timestamp: "created_at item = None \<Longrightarrow> \<not> is_duplicate UUID e db p item"
  by (simp add: is_duplicate_def)

lemma is_duplicate_fault:
  "fault_dedup e = Some m \<Longrightarrow> \<not> is_duplicate UUID e db p item"
  by (simp add: is_duplicate_def dup_id_def select_one_def split: option.splits)

lemma is_duplicate_iff:
  "created_at item = Some t \<Longrightarrow> fault_dedup e = None \<Longrightarrow>
   is_duplicate UUID e db p item
   = list_ex (dup_q p (usuario_uuid UUID item) item t) (abastecimentos db)"
proof -
  assume a: "created_at item = Some t" "fault_dedup e = None"
  let ?rows = "filter (dup_q p (usuario_uuid UUID item) item t) (abastecimentos db)"
  have "is_duplicate UUID e db p item = (?rows \<noteq> [])"
    using a by (cases ?rows) (simp_all add: is_duplicate_def dup_id_def select_one_def)
  also have "\<dots> = list_ex (dup_q p (usuario_uuid UUID item) item t) (abastecimentos db)"
    by (simp add: filter_empty_conv list_ex_iff)
  finally show ?thesis .
qed

lemma write_item_no_timestamp:
  "created_at item = None \<Longrightarrow>
   write_item UUID e db r p item =
     (flush e db p (quantidade item) (abast e db p (usuario_uuid UUID item) item),
      r\<lparr>inserted := inserted r + 1, accepted := accepted r @ token item\<rparr>)"
  by (simp add: write_item_def Let_def)

lemma write_item_timestamp:
  "created_at item = Some t \<Longrightarrow> fault_update e = None \<Longrightarrow>
   write_item UUID e db r p item =
     (update_created_at (flush e db p (quantidade item) (abast e db p (usuario_uuid UUID item) item))
        (new_id (abastecimentos db)) t,
      r\<lparr>inserted := inserted r + 1, accepted := accepted r @ token item\<rparr>)"
  by (simp add: write_item_def Let_def abast_def)

lemma write_item_update_fault:
  "created_at item = Some t \<Longrightarrow> fault_update e = Some m \<Longrightarrow>
   write_item UUID e db r p item =
     (flush e db p (quantidade item) (abast e db p (usuario_uuid UUID item) item),
      r\<lparr>conflicts := conflicts r @ [erro_interno (DBAPIError m) item]\<rparr>)"
  by (simp add: write_item_def Let_def)

subsection \<open>A failing duplicate lookup\<close>

text \<open>
  C8. A record with a claimed timestamp whose duplicate lookup raises is not aborted: with
  the product resolved and no other fault, its row is written, the stock is raised, the
  timestamp is set, the record is counted and its token accepted, and no conflict is
  recorded, whatever the ledger holds.
\<close>

theorem dedup_fault_falls_through:
  assumes "created_at item = Some t"
      and "resolve_produto UUID e db item = Inr (Some p)"
      and "fault_dedup e = Some m"
      and "fault_update e = None"
  shows "process_item UUID (db, r) (item, e) =
     (update_created_at (flush e db p (quantidade item) (abast e db p (usuario_uuid UUID item) item))
        (new_id (abastecimentos db)) t,
      r\<lparr>inserted := inserted r + 1, accepted := accepted r @ token item\<rparr>)"
  using assms
  by (simp add: process_item_resolved is_duplicate_fault write_item_timestamp)

theorem dedup_fault_falls_through_witness:
  "created_at item_ts = Some 100
   \<and> resolve_produto UUID_ex (env_dedup_fault 200) db_dup item_ts = Inr (Some produto_ex)
   \<and> fault_dedup (env_dedup_fault 200) = Some ''connection lost''
   \<and> fault_update (env_dedup_fault 200) = None
   \<and> list_ex (dup_q produto_ex (Some 7) item_ts 100) (abastecimentos db_dup)
   \<and> inserted (snd (process_item UUID_ex (db_dup, response0) (item_ts, env_dedup_fault 200))) = 1
   \<and> accepted (snd (process_item UUID_ex (db_dup, response0) (item_ts, env_dedup_fault 200))) = [''L2'']
   \<and> conflicts (snd (process_item UUID_ex (db_dup, response0) (item_ts, env_dedup_fault 200))) = []
   \<and> length (abastecimentos (fst (process_item UUID_ex (db_dup, response0) (item_ts, env_dedup_fault 200)))) = 2"
proof -
  have h1: "created_at item_ts = Some 100" by (simp add: item_ts_def)
  have h2: "resolve_produto UUID_ex (env_dedup_fault 200) db_dup item_ts = Inr (Some produto_ex)"
    by (simp add: model_defs ex_defs)
  have h3: "fault_dedup (env_dedup_fault 200) = Some ''connection lost''"
    by (simp add: ex_defs)
  have h4: "fault_update (env_dedup_fault 200) = None" by (simp add: ex_defs)
  have h5: "list_ex (dup_q produto_ex (Some 7) item_ts 100) (abastecimentos db_dup)"
    by (simp add: model_defs ex_defs)
  show ?thesis
    using dedup_fault_falls_through [OF h1 h2 h3 h4, of response0] h1 h2 h3 h4 h5
    by (simp add: response0_def token_def item_ts_def update_created_at_def flush_def db_dup_def)
qed

subsection \<open>A malformed actor identifier\<close>

text \<open>
  C10. A record whose actor identifier is present but malformed is processed exactly as the
  same record without an actor: the parsed actor is \<open>None\<close>, which is the value written to
  the row and used in the duplicate lookup, and nothing is raised or recorded for it.
\<close>

theorem malformed_actor_discarded:
  assumes "usuario_id item = Some s"
      and "UUID s = None"
  shows "usuario_uuid UUID item = None
       \<and> process_item UUID st (item, e) = process_item UUID st (item\<lparr>usuario_id := None\<rparr>, e)"
proof -
  have u: "usuario_uuid UUID item = None" "usuario_uuid UUID (item\<lparr>usuario_id := None\<rparr>) = None"
    using assms by (simp_all add: usuario_uuid_def)
  obtain db r where st: "st = (db, r)" by (cases st)
  have res: "resolve_produto UUID e db (item\<lparr>usuario_id := None\<rparr>) = resolve_produto UUID e db item"
  proof -
    have "select_by_id UUID e db (item\<lparr>usuario_id := None\<rparr>) = select_by_id UUID e db item"
      by (simp add: select_by_id_def split: option.splits)
    then show ?thesis
      by (simp add: resolve_produto_def split: sum.splits option.splits)
  qed
  have tcf: "tc_f (item\<lparr>usuario_id := None\<rparr>) = tc_f item"
    by (simp add: tc_f_def split: option.splits)
  have dq: "dup_q p uu (item\<lparr>usuario_id := None\<rparr>) t = dup_q p uu item t" for p uu t
    by (rule ext) (simp add: dup_q_def tcf)
  have dup: "is_duplicate UUID e db p (item\<lparr>usuario_id := None\<rparr>) = is_duplicate UUID e db p item" for p
  proof -
    have "dup_id e db p (usuario_uuid UUID (item\<lparr>usuario_id := None\<rparr>)) (item\<lparr>usuario_id := None\<rparr>) t
        = dup_id e db p (usuario_uuid UUID item) item t" for t
      by (simp add: dup_id_def u dq)
    then show ?thesis
      by (simp add: is_duplicate_def cong: option.case_cong)
  qed
  have ab: "abast e db p None (item\<lparr>usuario_id := None\<rparr>) = abast e db p None item" for p
    by (simp add: abast_def tcf)
  have tk: "token (item\<lparr>usuario_id := None\<rparr>) = token item"
    by (simp add: token_def split: option.splits)
  have ei: "erro_interno ex (item\<lparr>usuario_id := None\<rparr>) = erro_interno ex item" for ex
    by (simp add: erro_interno_def)
  have wr: "write_item UUID e db r p (item\<lparr>usuario_id := None\<rparr>) = write_item UUID e db r p item" for p
    by (simp add: write_item_def Let_def u ab tk ei cong: option.case_cong)
  have nf: "produto_nao_encontrado (item\<lparr>usuario_id := None\<rparr>) = produto_nao_encontrado item"
    by (simp add: produto_nao_encontrado_def)
  have "process_item UUID (db, r) (item\<lparr>usuario_id := None\<rparr>, e) = process_item UUID (db, r) (item, e)"
  proof (cases "resolve_produto UUID e db item")
    case (Inl ex)
    then show ?thesis using res by (simp add: process_item_raised ei)
  next
    case (Inr po)
    show ?thesis
    proof (cases po)
      case None
      with Inr show ?thesis using res by (simp add: process_item_not_found nf)
    next
      case (Some p)
      with Inr show ?thesis using res by (simp add: process_item_resolved dup wr tk)
    qed
  qed
  with u st show ?thesis by simp
qed

theorem malformed_actor_discarded_witness:
  "usuario_id item_bad_actor = Some ''not-a-uuid''
   \<and> UUID_ex ''not-a-uuid'' = None
   \<and> usuario_uuid UUID_ex item_bad_actor = None
   \<and> process_item UUID_ex (db_ex, response0) (item_bad_actor, env_ok 200)
     = process_item UUID_ex (db_ex, response0) (item_bad_actor\<lparr>usuario_id := None\<rparr>, env_ok 200)
   \<and> map a_usuario_id (abastecimentos (fst (process_item UUID_ex (db_ex, response0)
         (item_bad_actor, env_ok 200)))) = [None]"
proof -
  have h1: "usuario_id item_bad_actor = Some ''not-a-uuid''"
    by (simp add: item_bad_actor_def)
  have h2: "UUID_ex ''not-a-uuid'' = None" by (simp add: UUID_ex_def)
  have h3: "map a_usuario_id (abastecimentos (fst (process_item UUID_ex (db_ex, response0)
         (item_bad_actor, env_ok 200)))) = [None]"
    by (simp add: model_defs ex_defs Let_def)
  show ?thesis
    using malformed_actor_discarded [where UUID = UUID_ex and st = "(db_ex, response0)"
        and e = "env_ok 200", OF h1 h2] h1 h2 h3
    by simp
qed

subsection \<open>Resubmission of a record\<close>

lemma abast_id [simp]: "a_id (abast e db p uu item) = new_id (abastecimentos db)"
  by (simp add: abast_def)

lemma dup_q_abast:
  "p_id p1 = p_id p \<Longrightarrow> dup_q p1 uu item t ((abast e db p uu item)\<lparr>a_created_at := t\<rparr>)"
  by (simp add: dup_q_def abast_def)

text \<open>
  C1. A record with a claimed timestamp whose product resolves and whose duplicate lookup
  answers: when the ledger holds a row matching all the clauses of the lookup, the record
  leaves the tables as they are, is not counted, records no conflict, and its token (when
  present) is accepted. When the ledger holds no such row and the back-fill of the
  timestamp succeeds, a first call with the record writes one row, raises the stock of the
  product by the quantity and commits; a second call with the same record finds that row,
  changes nothing, and both calls accept the token.
\<close>

theorem idempotent_resubmission:
  assumes ts: "created_at item = Some t"
      and res: "resolve_produto UUID e db item = Inr (Some p)"
      and nf: "fault_dedup e = None"
  shows "(list_ex (dup_q p (usuario_uuid UUID item) item t) (abastecimentos db)
          \<longrightarrow> process_item UUID (db, r) (item, e) = (db, r\<lparr>accepted := accepted r @ token item\<rparr>))
       \<and> (\<not> list_ex (dup_q p (usuario_uuid UUID item) item t) (abastecimentos db)
          \<and> fault_update e = None
          \<and> resolve_produto UUID e' db item = Inr (Some p) \<and> fault_dedup e' = None
          \<longrightarrow> (\<exists>db1 a p1.
                bulk_create_abastecimentos UUID [(item, e)] db
                  = (db1, \<lparr>inserted = 1, accepted = token item, conflicts = []\<rparr>)
              \<and> bulk_create_abastecimentos UUID [(item, e')] db1
                  = (db1, \<lparr>inserted = 0, accepted = token item, conflicts = []\<rparr>)
              \<and> abastecimentos db1 = abastecimentos db @ [a]
              \<and> produtos db1 = map (update_produto e p (quantidade item)) (produtos db)
              \<and> resolve_produto UUID e' db1 item = Inr (Some p1)
              \<and> estoque_or_0 p1 = estoque_or_0 p + quantidade item))"
proof (intro conjI impI)
  assume "list_ex (dup_q p (usuario_uuid UUID item) item t) (abastecimentos db)"
  then have "is_duplicate UUID e db p item"
    using is_duplicate_iff [OF ts nf] by simp
  then show "process_item UUID (db, r) (item, e) = (db, r\<lparr>accepted := accepted r @ token item\<rparr>)"
    using process_item_resolved [OF res, of r] by simp
next
  let ?uu = "usuario_uuid UUID item"
  let ?q = "quantidade item"
  let ?a = "abast e db p ?uu item"
  let ?db1 = "update_created_at (flush e db p ?q ?a) (new_id (abastecimentos db)) t"
  let ?p1 = "update_produto e p ?q p"
  assume a: "\<not> list_ex (dup_q p ?uu item t) (abastecimentos db)
          \<and> fault_update e = None
          \<and> resolve_produto UUID e' db item = Inr (Some p) \<and> fault_dedup e' = None"
  then have nd: "\<not> is_duplicate UUID e db p item"
    using is_duplicate_iff [OF ts nf] by simp
  have s1: "process_item UUID (db, response0) (item, e)
      = (?db1, response0\<lparr>inserted := inserted response0 + 1,
                         accepted := accepted response0 @ token item\<rparr>)"
    using process_item_resolved [OF res, of response0] nd a write_item_timestamp [OF ts]
    by simp
  have c1: "bulk_create_abastecimentos UUID [(item, e)] db
      = (?db1, \<lparr>inserted = 1, accepted = token item, conflicts = []\<rparr>)"
    by (simp add: bulk_create_abastecimentos_def s1) (simp add: response0_def)
  have rows: "abastecimentos ?db1 = abastecimentos db @ [?a\<lparr>a_created_at := t\<rparr>]"
    using update_created_at_flush [of e db p ?q ?uu item t] by simp
  have prods: "produtos ?db1 = map (update_produto e p ?q) (produtos db)"
    by simp
  have res2: "resolve_produto UUID e' ?db1 item = Inr (Some ?p1)"
    using resolve_produto_updated [OF prods, of UUID e' item] a by simp
  have "list_ex (dup_q ?p1 ?uu item t) (abastecimentos ?db1)"
    unfolding rows by (simp add: dup_q_abast)
  then have d2: "is_duplicate UUID e' ?db1 ?p1 item"
    using is_duplicate_iff [OF ts, of e' UUID ?db1 ?p1] a by simp
  have s2: "process_item UUID (?db1, response0) (item, e')
      = (?db1, response0\<lparr>accepted := accepted response0 @ token item\<rparr>)"
    using process_item_resolved [OF res2, of response0] d2 by simp
  have c2: "bulk_create_abastecimentos UUID [(item, e')] ?db1
      = (?db1, \<lparr>inserted = 0, accepted = token item, conflicts = []\<rparr>)"
    by (simp add: bulk_create_abastecimentos_def s2) (simp add: response0_def)
  have st: "estoque_or_0 ?p1 = estoque_or_0 p + ?q"
    by (simp add: update_produto_def estoque_or_0_def)
  from c1 c2 rows prods res2 st
  show "\<exists>db1 a p1.
                bulk_create_abastecimentos UUID [(item, e)] db
                  = (db1, \<lparr>inserted = 1, accepted = token item, conflicts = []\<rparr>)
              \<and> bulk_create_abastecimentos UUID [(item, e')] db1
                  = (db1, \<lparr>inserted = 0, accepted = token item, conflicts = []\<rparr>)
              \<and> abastecimentos db1 = abastecimentos db @ [a]
              \<and> produtos db1 = map (update_produto e p (quantidade item)) (produtos db)
              \<and> resolve_produto UUID e' db1 item = Inr (Some p1)
              \<and> estoque_or_0 p1 = estoque_or_0 p + quantidade item"
    by blast
qed

theorem idempotent_resubmission_witness:
  "created_at item_ts = Some 100
   \<and> resolve_produto UUID_ex (env_ok 200) db_dup item_ts = Inr (Some produto_ex)
   \<and> fault_dedup (env_ok 200) = None
   \<and> list_ex (dup_q produto_ex (usuario_uuid UUID_ex item_ts) item_ts 100) (abastecimentos db_dup)
   \<and> process_item UUID_ex (db_dup, response0) (item_ts, env_ok 200)
       = (db_dup, response0\<lparr>accepted := [''L2'']\<rparr>)
   \<and> resolve_produto UUID_ex (env_ok 200) db_ex item_ts = Inr (Some produto_ex)
   \<and> \<not> list_ex (dup_q produto_ex (usuario_uuid UUID_ex item_ts) item_ts 100) (abastecimentos db_ex)
   \<and> fault_update (env_ok 200) = None
   \<and> resolve_produto UUID_ex (env_ok 300) db_ex item_ts = Inr (Some produto_ex)
   \<and> fault_dedup (env_ok 300) = None
   \<and> (\<exists>db1. bulk_create_abastecimentos UUID_ex [(item_ts, env_ok 200)] db_ex
                = (db1, \<lparr>inserted = 1, accepted = [''L2''], conflicts = []\<rparr>)
            \<and> bulk_create_abastecimentos UUID_ex [(item_ts, env_ok 300)] db1
                = (db1, \<lparr>inserted = 0, accepted = [''L2''], conflicts = []\<rparr>)
            \<and> length (abastecimentos db1) = 1
            \<and> map p_estoque (produtos db1) = [Some 8])"
proof -
  have h1: "created_at item_ts = Some 100" by (simp add: item_ts_def)
  have h2: "resolve_produto UUID_ex (env_ok 200) db_dup item_ts = Inr (Some produto_ex)"
    by (simp add: model_defs ex_defs)
  have h3: "fault_dedup (env_ok 200) = None" by (simp add: env_ok_def)
  have h4: "list_ex (dup_q produto_ex (usuario_uuid UUID_ex item_ts) item_ts 100) (abastecimentos db_dup)"
    by (simp add: model_defs ex_defs)
  have k2: "resolve_produto UUID_ex (env_ok 200) db_ex item_ts = Inr (Some produto_ex)"
    by (simp add: model_defs ex_defs)
  have k4: "\<not> list_ex (dup_q produto_ex (usuario_uuid UUID_ex item_ts) item_ts 100) (abastecimentos db_ex)"
    by (simp add: db_ex_def)
  have k5: "fault_update (env_ok 200) = None" by (simp add: env_ok_def)
  have k6: "resolve_produto UUID_ex (env_ok 300) db_ex item_ts = Inr (Some produto_ex)"
    by (simp add: model_defs ex_defs)
  have k7: "fault_dedup (env_ok 300) = None" by (simp add: env_ok_def)
  have t: "token item_ts = [''L2'']" by (simp add: token_def item_ts_def)
  have q: "map (p_estoque \<circ> update_produto (env_ok 200) produto_ex (quantidade item_ts)) (produtos db_ex)
      = [Some 8]"
    by (simp add: model_defs ex_defs)
  have A: "process_item UUID_ex (db_dup, response0) (item_ts, env_ok 200)
       = (db_dup, response0\<lparr>accepted := [''L2'']\<rparr>)"
    using idempotent_resubmission [OF h1 h2 h3, where r = response0] h4 t
    by (simp add: response0_def)
  have B: "\<exists>db1. bulk_create_abastecimentos UUID_ex [(item_ts, env_ok 200)] db_ex
                = (db1, \<lparr>inserted = 1, accepted = [''L2''], conflicts = []\<rparr>)
            \<and> bulk_create_abastecimentos UUID_ex [(item_ts, env_ok 300)] db1
                = (db1, \<lparr>inserted = 0, accepted = [''L2''], conflicts = []\<rparr>)
            \<and> length (abastecimentos db1) = 1
            \<and> map p_estoque (produtos db1) = [Some 8]"
    using idempotent_resubmission [OF h1 k2 h3, where e' = "env_ok 300" and r = response0] k4 k5 k6 k7 t q
    by (auto simp: db_ex_def)
  show ?thesis using h1 h2 h3 h4 A k2 k4 k5 k6 k7 B by blast
qed

subsection \<open>Commit or rollback\<close>



subsection \<open>Records without a timestamp\<close>

text \<open>
  C5. A record without a claimed timestamp whose product resolves is written and counted
  whatever the ledger holds; two such identical records in a row are both written, each
  with its own row.
\<close>

theorem no_timestamp_always_new:
  assumes "created_at item = None"
      and "resolve_produto UUID e1 db item = Inr (Some p)"
      and "resolve_produto UUID e2 db item = Inr (Some p)"
  shows "\<exists>db1 db2 a1 a2.
           process_item UUID (db, r) (item, e1)
             = (db1, r\<lparr>inserted := inserted r + 1, accepted := accepted r @ token item\<rparr>)
         \<and> abastecimentos db1 = abastecimentos db @ [a1]
         \<and> bulk_loop UUID (db, r) [(item, e1), (item, e2)]
             = (db2, r\<lparr>inserted := inserted r + 2, accepted := accepted r @ token item @ token item\<rparr>)
         \<and> abastecimentos db2 = abastecimentos db @ [a1, a2]
         \<and> stored_as item a1 \<and> stored_as item a2"
proof -
  let ?uu = "usuario_uuid UUID item"
  let ?q = "quantidade item"
  let ?a1 = "abast e1 db p ?uu item"
  let ?db1 = "flush e1 db p ?q ?a1"
  let ?r1 = "r\<lparr>inserted := inserted r + 1, accepted := accepted r @ token item\<rparr>"
  let ?p1 = "update_produto e1 p ?q p"
  let ?a2 = "abast e2 ?db1 ?p1 ?uu item"
  let ?db2 = "flush e2 ?db1 ?p1 ?q ?a2"
  have s1: "process_item UUID (db, r) (item, e1) = (?db1, ?r1)"
    using assms(1) process_item_resolved [OF assms(2), of r]
    by (simp add: is_duplicate_no_timestamp write_item_no_timestamp)
  have res2: "resolve_produto UUID e2 ?db1 item = Inr (Some ?p1)"
    using resolve_produto_updated [of ?db1 e1 p ?q db UUID e2 item] assms(3) by simp
  have s2: "process_item UUID (?db1, ?r1) (item, e2)
      = (?db2, r\<lparr>inserted := inserted r + 2, accepted := accepted r @ token item @ token item\<rparr>)"
    by (simp only: process_item_resolved [OF res2] is_duplicate_no_timestamp [OF assms(1)]
          write_item_no_timestamp [OF assms(1)] if_False) simp
  have "bulk_loop UUID (db, r) [(item, e1), (item, e2)]
      = (?db2, r\<lparr>inserted := inserted r + 2, accepted := accepted r @ token item @ token item\<rparr>)"
    by (simp only: bulk_loop.simps s1 s2)
  moreover have "abastecimentos ?db1 = abastecimentos db @ [?a1]"
    by (simp add: flush_rows)
  moreover have "abastecimentos ?db2 = abastecimentos db @ [?a1, ?a2]"
    by (simp add: flush_rows)
  moreover have "stored_as item ?a1" "stored_as item ?a2"
    by (rule abast_stored_as)+
  ultimately show ?thesis using s1 by blast
qed

theorem no_timestamp_always_new_witness:
  "created_at item_ex = None
   \<and> resolve_produto UUID_ex (env_ok 50) db_ex item_ex = Inr (Some produto_ex)
   \<and> resolve_produto UUID_ex (env_ok 60) db_ex item_ex = Inr (Some produto_ex)
   \<and> inserted (snd (bulk_loop UUID_ex (db_ex, response0) [(item_ex, env_ok 50), (item_ex, env_ok 60)])) = 2
   \<and> accepted (snd (bulk_loop UUID_ex (db_ex, response0) [(item_ex, env_ok 50), (item_ex, env_ok 60)]))
       = [''L1'', ''L1'']
   \<and> length (abastecimentos (fst (bulk_loop UUID_ex (db_ex, response0)
        [(item_ex, env_ok 50), (item_ex, env_ok 60)]))) = 2"
proof -
  have h1: "created_at item_ex = None" by (simp add: item_ex_def)
  have h2: "resolve_produto UUID_ex (env_ok 50) db_ex item_ex = Inr (Some produto_ex)"
    by (simp add: model_defs ex_defs)
  have h3: "resolve_produto UUID_ex (env_ok 60) db_ex item_ex = Inr (Some produto_ex)"
    by (simp add: model_defs ex_defs)
  have t: "token item_ex = [''L1'']" by (simp add: token_def item_ex_def)
  have d: "abastecimentos db_ex = []" by (simp add: db_ex_def)
  show ?thesis
    using no_timestamp_always_new [OF h1 h2 h3, of response0] h1 h2 h3
    by (auto simp: response0_def t d)
qed

subsection \<open>Resolution of the product\<close>

text \<open>
  C6. The product is looked up by identifier first: a well-formed identifier that selects
  one row resolves to it. When the identifier is absent, empty or malformed, nothing is
  raised and the result is that of the lookup by code (or no product, when the code is
  absent or empty). When the resolution ends without a product, the record adds a
  conflict whose reason code is \<^verbatim>\<open>produto_nao_encontrado\<close> and which carries the submitted
  product identifier and code, leaves the tables, the count and the accepted tokens as they
  are, and the loop goes on with the next record.
\<close>

theorem resolve_id_then_codigo:
  "(produto_id item = Some s \<and> s \<noteq> [] \<and> UUID s = Some pid \<and> fault_select_id e = None
      \<and> filter (\<lambda>x. p_id x = pid) (produtos db) = [p]
     \<longrightarrow> resolve_produto UUID e db item = Inr (Some p))
   \<and> (produto_id item = None \<or> produto_id item = Some [] \<or> (\<exists>s. produto_id item = Some s \<and> UUID s = None)
     \<longrightarrow> resolve_produto UUID e db item
         = (case produto_codigo item of
              None \<Rightarrow> Inr None
            | Some c \<Rightarrow> if c = [] then Inr None else select_by_codigo e db c))
   \<and> (resolve_produto UUID e db item = Inr None
     \<longrightarrow> process_item UUID (db, r) (item, e)
           = (db, r\<lparr>conflicts := conflicts r @ [produto_nao_encontrado item]\<rparr>)
       \<and> produto_nao_encontrado item
           = [(''reason'', Some ''produto_nao_encontrado''), (''produto_id'', produto_id item),
              (''produto_codigo'', produto_codigo item)]
       \<and> bulk_loop UUID (db, r) ((item, e) # rest)
           = bulk_loop UUID (db, r\<lparr>conflicts := conflicts r @ [produto_nao_encontrado item]\<rparr>) rest)"
proof (intro conjI impI)
  assume "produto_id item = Some s \<and> s \<noteq> [] \<and> UUID s = Some pid \<and> fault_select_id e = None
      \<and> filter (\<lambda>x. p_id x = pid) (produtos db) = [p]"
  then have "select_by_id UUID e db item = Inr (Some p)"
    by (simp add: select_by_id_def select_one_def)
  then show "resolve_produto UUID e db item = Inr (Some p)"
    by (simp add: resolve_produto_def)
next
  assume "produto_id item = None \<or> produto_id item = Some [] \<or> (\<exists>s. produto_id item = Some s \<and> UUID s = None)"
  then have "select_by_id UUID e db item = Inr None"
    by (auto simp: select_by_id_def)
  then show "resolve_produto UUID e db item
         = (case produto_codigo item of
              None \<Rightarrow> Inr None
            | Some c \<Rightarrow> if c = [] then Inr None else select_by_codigo e db c)"
    by (simp add: resolve_produto_def)
next
  assume a: "resolve_produto UUID e db item = Inr None"
  then show "process_item UUID (db, r) (item, e)
           = (db, r\<lparr>conflicts := conflicts r @ [produto_nao_encontrado item]\<rparr>)"
    by (rule process_item_not_found)
  then show "bulk_loop UUID (db, r) ((item, e) # rest)
           = bulk_loop UUID (db, r\<lparr>conflicts := conflicts r @ [produto_nao_encontrado item]\<rparr>) rest"
    by simp
  show "produto_nao_encontrado item
           = [(''reason'', Some ''produto_nao_encontrado''), (''produto_id'', produto_id item),
              (''produto_codigo'', produto_codigo item)]"
    by (simp add: produto_nao_encontrado_def)
qed

theorem resolve_id_then_codigo_witness:
  "(produto_id item_ts = Some ''p1'' \<and> ''p1'' \<noteq> [] \<and> UUID_ex ''p1'' = Some 1
      \<and> fault_select_id (env_select_fault 10) = None
      \<and> filter (\<lambda>x. p_id x = 1) (produtos db_ex) = [produto_ex]
      \<and> resolve_produto UUID_ex (env_select_fault 10) db_ex item_ts = Inr (Some produto_ex))
   \<and> (produto_id item_bad_id = Some ''xyz'' \<and> UUID_ex ''xyz'' = None
      \<and> resolve_produto UUID_ex (env_ok 10) db_ex item_bad_id = select_by_codigo (env_ok 10) db_ex ''SKU1''
      \<and> select_by_codigo (env_ok 10) db_ex ''SKU1'' = Inr (Some produto_ex))
   \<and> (resolve_produto UUID_ex (env_ok 10) db_ex item_unknown = Inr None
      \<and> process_item UUID_ex (db_ex, response0) (item_unknown, env_ok 10)
          = (db_ex, response0\<lparr>conflicts := [produto_nao_encontrado item_unknown]\<rparr>)
      \<and> produto_nao_encontrado item_unknown
          = [(''reason'', Some ''produto_nao_encontrado''), (''produto_id'', None),
             (''produto_codigo'', Some ''NOPE'')]
      \<and> bulk_loop UUID_ex (db_ex, response0) [(item_unknown, env_ok 10), (item_ex, env_ok 50)]
          = bulk_loop UUID_ex (db_ex, response0\<lparr>conflicts := [produto_nao_encontrado item_unknown]\<rparr>)
              [(item_ex, env_ok 50)]
      \<and> inserted (snd (bulk_loop UUID_ex (db_ex, response0)
            [(item_unknown, env_ok 10), (item_ex, env_ok 50)])) = 1)"
proof -
  have a: "produto_id item_ts = Some ''p1'' \<and> ''p1'' \<noteq> [] \<and> UUID_ex ''p1'' = Some 1
      \<and> fault_select_id (env_select_fault 10) = None
      \<and> filter (\<lambda>x. p_id x = 1) (produtos db_ex) = [produto_ex]"
    by (simp add: ex_defs)
  have b: "produto_id item_bad_id = Some ''xyz''" "UUID_ex ''xyz'' = None"
      "produto_codigo item_bad_id = Some ''SKU1''"
      "select_by_codigo (env_ok 10) db_ex ''SKU1'' = Inr (Some produto_ex)"
    by (simp_all add: ex_defs select_by_codigo_def select_one_def)
  have c: "resolve_produto UUID_ex (env_ok 10) db_ex item_unknown = Inr None"
    by (simp add: model_defs ex_defs)
  have d: "inserted (snd (bulk_loop UUID_ex (db_ex, response0)
            [(item_unknown, env_ok 10), (item_ex, env_ok 50)])) = 1"
    by (simp add: model_defs ex_defs Let_def)
  have f: "produto_id item_unknown = None" "produto_codigo item_unknown = Some ''NOPE''"
    by (simp_all add: ex_defs)
  note t = resolve_id_then_codigo [where UUID = UUID_ex and db = db_ex]
  show ?thesis
    using t [where item = item_ts and e = "env_select_fault 10" and s = "''p1''" and pid = 1
               and p = produto_ex]
      t [where item = item_bad_id and e = "env_ok 10"]
      t [where item = item_unknown and e = "env_ok 10" and r = response0
               and rest = "[(item_ex, env_ok 50)]"]
      a b c d f
    by (simp add: response0_def)
qed

subsection \<open>Batches without a failing flush\<close>

text \<open>
  When no flush of the batch raises, the session stays active, the call answers with its
  response, and tables and response are those of \<open>bulk_create_abastecimentos\<close>.
\<close>

lemma process_item_session_no_fault:
  "process_item_session UUID (Active db, r) (item, e, None)
   = (case process_item UUID (db, r) (item, e) of (db', r') \<Rightarrow> (Active db', r'))"
  by (simp add: process_item_session_def process_item_def split: sum.splits option.splits)

lemma bulk_loop_session_no_fault:
  "bulk_loop_session UUID (Active db, r) (no_flush_fault payload)
   = (case bulk_loop UUID (db, r) payload of (db', r') \<Rightarrow> (Active db', r'))"
proof (induction payload arbitrary: db r)
  case Nil
  then show ?case by (simp add: no_flush_fault_def)
next
  case (Cons ie rest)
  obtain item e where ie: "ie = (item, e)" by (cases ie)
  obtain db1 r1 where st: "process_item UUID (db, r) (item, e) = (db1, r1)"
    by (cases "process_item UUID (db, r) (item, e)")
  have "bulk_loop_session UUID (Active db, r) (no_flush_fault (ie # rest))
      = bulk_loop_session UUID (Active db1, r1) (no_flush_fault rest)"
    using ie st by (simp add: no_flush_fault_def process_item_session_no_fault)
  also have "\<dots> = (case bulk_loop UUID (db1, r1) rest of (db', r') \<Rightarrow> (Active db', r'))"
    by (rule Cons.IH)
  also have "\<dots> = (case bulk_loop UUID (db, r) (ie # rest) of (db', r') \<Rightarrow> (Active db', r'))"
    using ie st by simp
  finally show ?case .
qed

lemma bulk_create_abastecimentos_session_no_fault:
  "bulk_create_abastecimentos_session UUID (no_flush_fault payload) db
   = (case bulk_create_abastecimentos UUID payload db of (db', r') \<Rightarrow> (db', Inr r'))"
  by (simp add: bulk_create_abastecimentos_session_def bulk_create_abastecimentos_def
      bulk_loop_session_no_fault split: prod.splits)

subsection \<open>Conflict entries\<close>

text \<open>
  C7 fails on the code. The batch holds one record, with correlation token L9, whose product
  code is in no row of the catalogue. The call answers with one conflict. Its entry, built
  at lines 149-153, holds the reason code and the submitted product identifier and code; it
  has no key for the correlation token and none for a diagnostic message, where the claim
  has every conflict entry carry both, as the entry built at line 244 does.
\<close>

theorem not_found_conflict_lacks_token:
  "bulk_create_abastecimentos_session UUID_ex [(item_unknown, env_ok 10, None)] db_ex
     = (db_ex, Inr \<lparr>inserted = 0, accepted = [],
                     conflicts = [produto_nao_encontrado item_unknown]\<rparr>)
   \<and> produto_nao_encontrado item_unknown
       = [(''reason'', Some ''produto_nao_encontrado''), (''produto_id'', None),
          (''produto_codigo'', Some ''NOPE'')]
   \<and> local_id item_unknown = Some ''L9''
   \<and> map_of (produto_nao_encontrado item_unknown) ''local_id'' = None
   \<and> map_of (produto_nao_encontrado item_unknown) ''message'' = None"
  by (simp add: model_defs ex_defs Let_def)

text \<open>
  A record whose flush raises is caught as well, but the records after it are no longer
  processed as the claim has it: the session refuses their selects, so a record that would
  have been inserted becomes a conflict; and when a record had been counted before, the
  commit raises and the call answers with status 500 instead of its report.
\<close>

lemma failed_flush_fails_later_records:
  "bulk_create_abastecimentos_session UUID_ex
     [(item_ts, env_ok 200, Some ''integrity error''), (item_ex, env_ok 50, None)] db_ex
   = (db_ex, Inr \<lparr>inserted = 0, accepted = [],
        conflicts = [erro_interno (DBAPIError ''integrity error'') item_ts,
                     erro_interno PendingRollbackError item_ex]\<rparr>)"
  by (simp add: model_defs ex_defs Let_def)

lemma failed_flush_after_insertion:
  "bulk_create_abastecimentos_session UUID_ex
     [(item_ex, env_ok 50, None), (item_ts, env_ok 200, Some ''integrity error'')] db_ex
   = (db_ex, Inl (HTTPException 500
        (''Erro ao importar abastecimentos: '' @ str_exn PendingRollbackError)))"
  by (simp add: model_defs ex_defs Let_def)

subsection \<open>The stock of a record reported as a conflict\<close>

text \<open>
  C2 fails on the code. The first record is inserted. The second is flushed, its row and
  its quantity reaching the tables, and then fails at the back-fill of its timestamp (lines
  234-238): it is recorded as a conflict and not counted. The batch commits, and the stock
  of the product goes from 5 to 18, where the only accepted fresh record has quantity 10:
  the record recorded as a conflict has contributed 3.
\<close>

theorem conflict_record_raises_stock:
  "bulk_create_abastecimentos_session UUID_ex
     [(item_ex, env_ok 50, None), (item_ts, env_update_fault 200, None)] db_ex
     = (\<lparr>produtos = [\<lparr>p_id = 1, p_codigo = ''SKU1'', p_estoque = Some 18, p_updated_at = 200\<rparr>],
         abastecimentos =
           [\<lparr>a_id = 1, a_produto_id = 1, a_usuario_id = None, a_quantidade = 10,
             a_custo_unitario = 5 / 2, a_total = 25, a_total_custo = 25, a_observacao = None,
             a_created_at = 50\<rparr>,
            \<lparr>a_id = 2, a_produto_id = 1, a_usuario_id = Some 7, a_quantidade = 3,
             a_custo_unitario = 2, a_total = 6, a_total_custo = 7, a_observacao = None,
             a_created_at = 200\<rparr>]\<rparr>,
        Inr \<lparr>inserted = 1, accepted = [''L1''],
             conflicts = [erro_interno (DBAPIError ''invalid input for query argument'') item_ts]\<rparr>)
   \<and> estoque_of db_ex 1 = 5
   \<and> quantidade item_ex = 10
   \<and> estoque_of (fst (bulk_create_abastecimentos_session UUID_ex
         [(item_ex, env_ok 50, None), (item_ts, env_update_fault 200, None)] db_ex)) 1 = 18
   \<and> estoque_of (fst (bulk_create_abastecimentos_session UUID_ex
         [(item_ex, env_ok 50, None), (item_ts, env_update_fault 200, None)] db_ex)) 1
       \<noteq> estoque_of db_ex 1 + quantidade item_ex"
  by (simp add: model_defs ex_defs Let_def)

text \<open>
  The retry of such a record is not recognised, since the row it left holds the time of
  the clock and not the claimed one: the quantity is on the stock twice (5 to 11 for one
  intake of 3), which is what the comment of lines 163-173 sets out to prevent.
\<close>

lemma backfill_failure_retry_counted_twice:
  "bulk_create_abastecimentos_session UUID_ex
     [(item_ts, env_update_fault 200, None), (item_ts, env_ok 300, None)] db_ex
   = (\<lparr>produtos = [\<lparr>p_id = 1, p_codigo = ''SKU1'', p_estoque = Some 11, p_updated_at = 300\<rparr>],
       abastecimentos =
         [\<lparr>a_id = 1, a_produto_id = 1, a_usuario_id = Some 7, a_quantidade = 3,
           a_custo_unitario = 2, a_total = 6, a_total_custo = 7, a_observacao = None,
           a_created_at = 200\<rparr>,
          \<lparr>a_id = 2, a_produto_id = 1, a_usuario_id = Some 7, a_quantidade = 3,
           a_custo_unitario = 2, a_total = 6, a_total_custo = 7, a_observacao = None,
           a_created_at = 100\<rparr>]\<rparr>,
      Inr \<lparr>inserted = 1, accepted = [''L2''],
           conflicts = [erro_interno (DBAPIError ''invalid input for query argument'') item_ts]\<rparr>)"
  by (simp add: model_defs ex_defs Let_def)

subsection \<open>The effects of a record that fails partway\<close>

text \<open>
  C4 fails on the code. The first record fails partway, at the back-fill of its timestamp
  after its flush; the second is inserted and the batch commits. The committed tables hold
  the row of the first record (with the time of the clock, 200, not the claimed 100), its
  quantity on the stock (5 + 3 + 10) and the modification time it refreshed, while the
  response reports the record as \<^verbatim>\<open>erro_interno\<close> and counts one insertion. The last
  conjunct is the session right after the failed record: row, stock and modification time
  are all there.
\<close>

theorem failed_record_effects_committed:
  "bulk_create_abastecimentos_session UUID_ex
     [(item_ts, env_update_fault 200, None), (item_ex, env_ok 300, None)] db_ex
   = (\<lparr>produtos = [\<lparr>p_id = 1, p_codigo = ''SKU1'', p_estoque = Some 18, p_updated_at = 300\<rparr>],
       abastecimentos =
         [\<lparr>a_id = 1, a_produto_id = 1, a_usuario_id = Some 7, a_quantidade = 3,
           a_custo_unitario = 2, a_total = 6, a_total_custo = 7, a_observacao = None,
           a_created_at = 200\<rparr>,
          \<lparr>a_id = 2, a_produto_id = 1, a_usuario_id = None, a_quantidade = 10,
           a_custo_unitario = 5 / 2, a_total = 25, a_total_custo = 25, a_observacao = None,
           a_created_at = 300\<rparr>]\<rparr>,
      Inr \<lparr>inserted = 1, accepted = [''L1''],
           conflicts = [erro_interno (DBAPIError ''invalid input for query argument'') item_ts]\<rparr>)
   \<and> erro_interno (DBAPIError ''invalid input for query argument'') item_ts
       = [(''reason'', Some ''erro_interno''),
          (''message'', Some ''invalid input for query argument''),
          (''local_id'', Some ''L2'')]
   \<and> process_item_session UUID_ex (Active db_ex, response0) (item_ts, env_update_fault 200, None)
       = (Active \<lparr>produtos = [\<lparr>p_id = 1, p_codigo = ''SKU1'', p_estoque = Some 8,
                                 p_updated_at = 200\<rparr>],
                   abastecimentos =
                     [\<lparr>a_id = 1, a_produto_id = 1, a_usuario_id = Some 7, a_quantidade = 3,
                       a_custo_unitario = 2, a_total = 6, a_total_custo = 7,
                       a_observacao = None, a_created_at = 200\<rparr>]\<rparr>,
          \<lparr>inserted = 0, accepted = [],
           conflicts = [erro_interno (DBAPIError ''invalid input for query argument'') item_ts]\<rparr>)"
  by (simp add: model_defs ex_defs Let_def)

text \<open>
  The same record alone in its batch is rolled back with all its effects: nothing is
  counted, so line 249 runs.
\<close>

lemma backfill_failure_alone_rolled_back:
  "bulk_create_abastecimentos_session UUID_ex [(item_ts, env_update_fault 200, None)] db_ex
   = (db_ex, Inr \<lparr>inserted = 0, accepted = [],
        conflicts = [erro_interno (DBAPIError ''invalid input for query argument'') item_ts]\<rparr>)"
  by (simp add: model_defs ex_defs Let_def)

end
